theory Spec2Isabelle
  imports Main
begin

section \<open>Common notions\<close>

text \<open>
  Python objects are compared by identity unless a class overrides \<open>__eq__\<close>; no class
  of \<open>main.py\<close> does. An object reference is therefore an address.
  A Python \<open>str\<close> is modelled as a \<open>string\<close>. Exceptions are values of \<open>py_error\<close>;
  \<open>Exception m\<close> stands for any exception an \<open>Observer\<close> subclass may raise.
\<close>

type_synonym addr = nat
type_synonym str = string

datatype py_error = AttributeError | ValueError | Exception str

section \<open>Singleton: \<open>Configuration\<close>\<close>

text \<open>
  The class object carries the two class attributes \<open>_instance\<close> and \<open>_settings\<close>.
  \<open>_settings\<close> does not exist before the first construction, which is the outer \<open>None\<close>
  of \<open>cls_settings\<close>. Instances have no attributes of their own, so \<open>self._settings\<close>
  always resolves to the class attribute. \<open>allocated\<close> counts the objects created by
  \<open>object.__new__\<close>; the object created next has that number as its address.
\<close>

record ('k, 'v) Configuration_class =
  cls_instance :: "addr option"
  cls_settings :: "('k \<rightharpoonup> 'v) option"
  allocated :: nat

definition Configuration_class0 :: "('k, 'v) Configuration_class" where
  "Configuration_class0 = \<lparr>cls_instance = None, cls_settings = None, allocated = 0\<rparr>"

definition Configuration_new ::
  "('k, 'v) Configuration_class \<Rightarrow> addr \<times> ('k, 'v) Configuration_class" where
  "Configuration_new cls =
     (case cls_instance cls of
        None \<Rightarrow>
          (allocated cls,
           cls\<lparr>cls_instance := Some (allocated cls),
               cls_settings := Some Map.empty,
               allocated := Suc (allocated cls)\<rparr>)
      | Some a \<Rightarrow> (a, cls))"

definition set_setting ::
  "addr \<Rightarrow> 'k \<Rightarrow> 'v \<Rightarrow> ('k, 'v) Configuration_class
     \<Rightarrow> py_error + ('k, 'v) Configuration_class" where
  "set_setting self key val cls =
     (case cls_settings cls of
        None \<Rightarrow> Inl AttributeError
      | Some d \<Rightarrow> Inr (cls\<lparr>cls_settings := Some (d(key \<mapsto> val))\<rparr>))"

definition get_setting ::
  "addr \<Rightarrow> 'k \<Rightarrow> ('k, 'v) Configuration_class \<Rightarrow> py_error + 'v option" where
  "get_setting self key cls =
     (case cls_settings cls of
        None \<Rightarrow> Inl AttributeError
      | Some d \<Rightarrow> Inr (d key))"

text \<open>
  What the rest of the process may do to the registry between two points of interest:
  construct it again, or store a value through some reference.
\<close>

datatype ('k, 'v) call = Construct | SetSetting addr 'k 'v

fun run ::
  "('k, 'v) call list \<Rightarrow> ('k, 'v) Configuration_class
     \<Rightarrow> py_error + ('k, 'v) Configuration_class" where
  "run [] cls = Inr cls"
| "run (Construct # cs) cls = run cs (snd (Configuration_new cls))"
| "run (SetSetting self key val # cs) cls =
     (case set_setting self key val cls of
        Inl e \<Rightarrow> Inl e
      | Inr cls' \<Rightarrow> run cs cls')"

fun stores :: "'k \<Rightarrow> ('k, 'v) call list \<Rightarrow> bool" where
  "stores key [] = False"
| "stores key (Construct # cs) = stores key cs"
| "stores key (SetSetting self key' val # cs) = (key' = key \<or> stores key cs)"

text \<open>The states the class object can be in: untouched, or holding its one instance.\<close>

definition untouched :: "('k, 'v) Configuration_class \<Rightarrow> bool" where
  "untouched cls \<longleftrightarrow>
     cls_instance cls = None \<and> cls_settings cls = None \<and> allocated cls = 0"

definition constructed :: "('k, 'v) Configuration_class \<Rightarrow> bool" where
  "constructed cls \<longleftrightarrow>
     cls_instance cls = Some 0 \<and> cls_settings cls \<noteq> None \<and> allocated cls = 1"

definition lookup :: "'k \<Rightarrow> ('k, 'v) Configuration_class \<Rightarrow> 'v option" where
  "lookup key cls = (case cls_settings cls of None \<Rightarrow> None | Some d \<Rightarrow> d key)"

section \<open>Strings\<close>

text \<open>
  \<open>str.lower()\<close> and \<open>str.upper()\<close> are built-ins of Python, not code of the repository.
  \<open>str_lower\<close> and \<open>str_upper\<close> stand for them and agree with them on ASCII strings
  only: every character that is not an ASCII letter is left as it is, where Python also
  maps the letters beyond ASCII and may change the length of the string. The
  definitions that call them embed \<open>content.lower()\<close> and \<open>content.upper()\<close> as they
  are written, and no property below depends on which characters the two functions
  change.
\<close>

definition ascii_uppercase :: str where
  "ascii_uppercase = ''ABCDEFGHIJKLMNOPQRSTUVWXYZ''"

definition ascii_lowercase :: str where
  "ascii_lowercase = ''abcdefghijklmnopqrstuvwxyz''"

definition translate :: "str \<Rightarrow> str \<Rightarrow> char \<Rightarrow> char" where
  "translate src dst c = (case map_of (zip src dst) c of None \<Rightarrow> c | Some c' \<Rightarrow> c')"

definition str_lower :: "str \<Rightarrow> str" where
  "str_lower s = map (translate ascii_uppercase ascii_lowercase) s"

definition str_upper :: "str \<Rightarrow> str" where
  "str_upper s = map (translate ascii_lowercase ascii_uppercase) s"

section \<open>Factory method: document handlers\<close>

text \<open>
  A handler object has no attributes; it is determined by its class. Constructing one
  allocates a new object: the handler objects of the process are a list, an object's
  address is its index, and a constructor appends.
\<close>

datatype DocumentHandler = TextHandler | PDFHandler

definition TextHandler_process :: "str \<Rightarrow> str" where
  "TextHandler_process content = str_lower content"

definition PDFHandler_process :: "str \<Rightarrow> str" where
  "PDFHandler_process content = ''PDF Content: '' @ content"

fun DocumentHandler_process :: "DocumentHandler \<Rightarrow> str \<Rightarrow> str" where
  "DocumentHandler_process TextHandler content = TextHandler_process content"
| "DocumentHandler_process PDFHandler content = PDFHandler_process content"

datatype HandlerFactory = TextHandlerFactory | PDFHandlerFactory

type_synonym handlers = "DocumentHandler list"

definition TextHandlerFactory_create_handler :: "handlers \<Rightarrow> addr \<times> handlers" where
  "TextHandlerFactory_create_handler hs = (length hs, hs @ [TextHandler])"

definition PDFHandlerFactory_create_handler :: "handlers \<Rightarrow> addr \<times> handlers" where
  "PDFHandlerFactory_create_handler hs = (length hs, hs @ [PDFHandler])"

fun create_handler :: "HandlerFactory \<Rightarrow> handlers \<Rightarrow> addr \<times> handlers" where
  "create_handler TextHandlerFactory hs = TextHandlerFactory_create_handler hs"
| "create_handler PDFHandlerFactory hs = PDFHandlerFactory_create_handler hs"

section \<open>Strategy: \<open>TextProcessor\<close>\<close>

datatype ProcessingStrategy = LowerCaseStrategy | UpperCaseStrategy

definition LowerCaseStrategy_process :: "str \<Rightarrow> str" where
  "LowerCaseStrategy_process content = str_lower content"

definition UpperCaseStrategy_process :: "str \<Rightarrow> str" where
  "UpperCaseStrategy_process content = str_upper content"

fun ProcessingStrategy_process :: "ProcessingStrategy \<Rightarrow> str \<Rightarrow> str" where
  "ProcessingStrategy_process LowerCaseStrategy content = LowerCaseStrategy_process content"
| "ProcessingStrategy_process UpperCaseStrategy content = UpperCaseStrategy_process content"

record TextProcessor =
  strategy :: ProcessingStrategy

definition TextProcessor_init :: "ProcessingStrategy \<Rightarrow> TextProcessor" where
  "TextProcessor_init s = \<lparr>strategy = s\<rparr>"

definition set_strategy :: "TextProcessor \<Rightarrow> ProcessingStrategy \<Rightarrow> TextProcessor" where
  "set_strategy self s = self\<lparr>strategy := s\<rparr>"

definition execute :: "TextProcessor \<Rightarrow> str \<Rightarrow> str" where
  "execute self c = ProcessingStrategy_process (strategy self) c"

text \<open>
  A series of calls on one processor, with the strings the \<open>execute\<close> calls returned,
  first call first.
\<close>

datatype processor_call = SetStrategy ProcessingStrategy | Execute str

fun session :: "processor_call list \<Rightarrow> TextProcessor \<Rightarrow> str list \<times> TextProcessor" where
  "session [] self = ([], self)"
| "session (SetStrategy s # cs) self = session cs (set_strategy self s)"
| "session (Execute c # cs) self =
     (let (rs, self') = session cs self in (execute self c # rs, self'))"

section \<open>Decorator: components\<close>

text \<open>
  \<open>operation\<close> takes the lines printed so far and returns them with its result:
  \<open>print\<close> appends one line.
\<close>

datatype Component =
  ConcreteComponent str
| Decorator Component
| SpellCheckDecorator Component
| LoggingDecorator Component

fun operation :: "Component \<Rightarrow> str list \<Rightarrow> str \<times> str list" where
  "operation (ConcreteComponent c) out = (c, out)"
| "operation (Decorator component) out = operation component out"
| "operation (SpellCheckDecorator component) out =
     (let (r, out') = operation component out
      in (''SpellChecked('' @ r @ '')'', out'))"
| "operation (LoggingDecorator component) out =
     (let (result, out') = operation component out
      in (result, out' @ [''Logging: '' @ result]))"

section \<open>Observer: \<open>Subject\<close>, \<open>Document\<close>, \<open>Logger\<close>\<close>

text \<open>
  A \<open>Document\<close> holds the references of its observers and its content. What an observer
  does when notified is its \<open>update\<close> method. It is handed the subject itself, so it may
  change it (attach, detach, assign the content); it acts on the world outside the
  document (\<open>'w\<close>; for \<open>Logger\<close>, the lines printed so far); and it returns or raises.
  An \<open>update_method\<close> therefore yields the outcome, the subject and the world as it left
  them, also when it raises. \<open>observer_objects\<close> gives the \<open>update\<close> method of the
  object at each address.
\<close>

record Document =
  observers :: "addr list"
  content :: str


definition Document_init :: Document where
  "Document_init = \<lparr>observers = [], content = []\<rparr>"


text \<open>\<open>list.remove(x)\<close>: drops the first item equal to \<open>x\<close>, raises \<open>ValueError\<close> if none is.\<close>

fun list_remove :: "addr list \<Rightarrow> addr \<Rightarrow> py_error + addr list" where
  "list_remove [] x = Inl ValueError"
| "list_remove (y # ys) x =
     (if y = x then Inr ys
      else (case list_remove ys x of
              Inl e \<Rightarrow> Inl e
            | Inr ys' \<Rightarrow> Inr (y # ys')))"

definition detach :: "Document \<Rightarrow> addr \<Rightarrow> py_error + Document" where
  "detach self observer =
     (case list_remove (observers self) observer of
        Inl e \<Rightarrow> Inl e
      | Inr obs \<Rightarrow> Inr (self\<lparr>observers := obs\<rparr>))"
















section \<open>Properties of the registry\<close>

lemma new_untouched:
  "untouched cls \<Longrightarrow> Configuration_new cls = (r, cls') \<Longrightarrow>
     r = 0 \<and> constructed cls' \<and> lookup key cls' = None"
  by (auto simp: untouched_def constructed_def Configuration_new_def lookup_def)

lemma new_constructed:
  "constructed cls \<Longrightarrow> Configuration_new cls = (r, cls') \<Longrightarrow> r = 0 \<and> cls' = cls"
  by (auto simp: constructed_def Configuration_new_def)

lemma set_constructed:
  "constructed cls \<Longrightarrow>
     \<exists>cls'. set_setting self key val cls = Inr cls' \<and> constructed cls' \<and>
       lookup key cls' = Some val \<and> (\<forall>k. k \<noteq> key \<longrightarrow> lookup k cls' = lookup k cls)"
  by (auto simp: constructed_def set_setting_def lookup_def)

lemma get_constructed:
  "constructed cls \<Longrightarrow> get_setting self key cls = Inr (lookup key cls)"
  by (auto simp: constructed_def get_setting_def lookup_def)

lemma run_constructed:
  "constructed cls \<Longrightarrow> run cs cls = Inr cls' \<Longrightarrow>
     constructed cls' \<and> (\<not> stores key cs \<longrightarrow> lookup key cls' = lookup key cls)"
proof (induction cs arbitrary: cls)
  case Nil
  then show ?case by simp
next
  case (Cons c cs)
  show ?case
  proof (cases c)
    case Construct
    obtain r where "Configuration_new cls = (r, cls)"
      using Cons.prems(1) by (auto simp: constructed_def Configuration_new_def)
    then have "run cs cls = Inr cls'"
      using Cons.prems(2) Construct by simp
    from Cons.IH [OF Cons.prems(1) this] show ?thesis
      using Construct by simp
  next
    case (SetSetting self k v)
    from set_constructed [OF Cons.prems(1), of self k v]
    obtain c1 where c1: "set_setting self k v cls = Inr c1" "constructed c1"
      "\<forall>k'. k' \<noteq> k \<longrightarrow> lookup k' c1 = lookup k' cls"
      by blast
    then have "run cs c1 = Inr cls'"
      using Cons.prems(2) SetSetting by simp
    from Cons.IH [OF c1(2) this] show ?thesis
      using SetSetting c1(3) by auto
  qed
qed

lemma run_untouched:
  "untouched cls \<Longrightarrow> run cs cls = Inr cls' \<Longrightarrow>
     (untouched cls' \<or> constructed cls') \<and> (\<not> stores key cs \<longrightarrow> lookup key cls' = None)"
proof (induction cs arbitrary: cls)
  case Nil
  then show ?case by (simp add: untouched_def lookup_def)
next
  case (Cons c cs)
  show ?case
  proof (cases c)
    case Construct
    obtain r c1 where n: "Configuration_new cls = (r, c1)"
      by (cases "Configuration_new cls")
    from new_untouched [OF Cons.prems(1) n, of key]
    have c1: "constructed c1" "lookup key c1 = None" by simp_all
    have "run cs c1 = Inr cls'"
      using Cons.prems(2) Construct n by simp
    from run_constructed [OF c1(1) this, of key] show ?thesis
      using Construct c1(2) by simp
  next
    case (SetSetting self k v)
    then show ?thesis
      using Cons.prems by (simp add: untouched_def set_setting_def)
  qed
qed

lemma untouched0: "untouched Configuration_class0"
  by (simp add: untouched_def Configuration_class0_def)


text \<open>
  C1. Whatever the process did before and does in between, two constructions of
  \<open>Configuration\<close> return the same reference, exactly one object has ever been
  allocated, and a value stored through one reference is read through every other one,
  also one obtained later, as long as the key is not stored again.
\<close>

theorem Configuration_singleton:
  assumes hist: "run cs0 Configuration_class0 = Inr c0"
      and new1: "Configuration_new c0 = (r1, c1)"
      and mid: "run cs1 c1 = Inr c2"
      and new2: "Configuration_new c2 = (r2, c3)"
  shows "r2 = r1 \<and> cls_instance c3 = Some r1 \<and> allocated c3 = 1 \<and>
         (\<forall>key val c4 cs2 c5 r3 c6.
            set_setting r1 key val c3 = Inr c4 \<and> run cs2 c4 = Inr c5 \<and>
            \<not> stores key cs2 \<and> Configuration_new c5 = (r3, c6) \<longrightarrow>
            r3 = r1 \<and> get_setting r2 key c6 = Inr (Some val) \<and>
            get_setting r3 key c6 = Inr (Some val))"
proof -
  from run_untouched [OF untouched0 hist]
  have "untouched c0 \<or> constructed c0" by simp
  then have c1: "r1 = 0 \<and> constructed c1"
    using new_untouched [OF _ new1] new_constructed [OF _ new1] by blast
  from run_constructed [OF _ mid] c1 have c2: "constructed c2" by simp
  from new_constructed [OF c2 new2] have c3: "r2 = 0" "c3 = c2" by simp_all
  have later: "r3 = r1 \<and> get_setting r2 key c6 = Inr (Some val) \<and>
      get_setting r3 key c6 = Inr (Some val)"
    if s: "set_setting r1 key val c3 = Inr c4" and r: "run cs2 c4 = Inr c5"
      and n: "\<not> stores key cs2" and w: "Configuration_new c5 = (r3, c6)"
    for key val c4 cs2 c5 r3 c6
  proof -
    from set_constructed [of c3 r1 key val] c2 c3(2) s
    have c4: "constructed c4" "lookup key c4 = Some val" by auto
    from run_constructed [OF c4(1) r, of key] n c4(2)
    have c5: "constructed c5" "lookup key c5 = Some val" by simp_all
    from new_constructed [OF c5(1) w] have c6: "r3 = 0" "c6 = c5" by simp_all
    show ?thesis
      using c1 c5 c6 by (simp add: get_constructed)
  qed
  have "cls_instance c3 = Some r1 \<and> allocated c3 = 1"
    using c1 c2 c3(2) by (simp add: constructed_def)
  with c1 c3(1) later show ?thesis by blast
qed

theorem Configuration_singleton_witness:
  "get_setting 0 ''language''
     (snd (Configuration_new (snd (Configuration_new
        (cls_settings_update (\<lambda>_. Some [''language'' \<mapsto> ''EN''])
           (snd (Configuration_new (Configuration_class0 :: (str, str) Configuration_class))))))))
   = Inr (Some ''EN'')"
proof -
  let ?c0 = "Configuration_class0 :: (str, str) Configuration_class"
  let ?c1 = "snd (Configuration_new ?c0)"
  let ?c4 = "?c1\<lparr>cls_settings := Some [''language'' \<mapsto> ''EN'']\<rparr>"
  have h0: "run [] ?c0 = Inr ?c0" by simp
  have h1: "Configuration_new ?c0 = (0, ?c1)"
    by (simp add: Configuration_new_def Configuration_class0_def)
  have h2: "run [Construct] ?c1 = Inr ?c1"
    by (simp add: Configuration_new_def Configuration_class0_def)
  have h3: "Configuration_new ?c1 = (0, ?c1)"
    by (simp add: Configuration_new_def Configuration_class0_def)
  have h4: "set_setting 0 ''language'' ''EN'' ?c1 = Inr ?c4"
    by (simp add: set_setting_def Configuration_new_def Configuration_class0_def)
  have h5: "run [Construct] ?c4 = Inr (snd (Configuration_new ?c4))" by simp
  have h6: "\<not> stores ''language'' [Construct :: (str, str) call]" by simp
  have h7: "Configuration_new (snd (Configuration_new ?c4))
      = (0, snd (Configuration_new (snd (Configuration_new ?c4))))"
    by (simp add: Configuration_new_def Configuration_class0_def)
  from Configuration_singleton [OF h0 h1 h2 h3] h4 h5 h6 h7
  show ?thesis by blast
qed

text \<open>
  C2. Once the registry has been constructed, \<open>set_setting\<close> never fails and
  \<open>get_setting\<close> returns the value stored last under the key, also when the key held a
  value before; a key that was never stored yields \<open>None\<close>, not an error.
\<close>

theorem set_setting_get_setting:
  assumes hist: "run cs Configuration_class0 = Inr c0"
      and new: "Configuration_new c0 = (r, c1)"
  shows "(\<exists>c2. set_setting r key val c1 = Inr c2 \<and>
            get_setting r key c2 = Inr (Some val) \<and>
            (\<exists>c3. set_setting r key val' c2 = Inr c3 \<and>
               get_setting r key c3 = Inr (Some val'))) \<and>
         (\<not> stores key cs \<longrightarrow> get_setting r key c1 = Inr None)"
proof -
  from run_untouched [OF untouched0 hist, of key]
  have c0: "untouched c0 \<or> constructed c0" "\<not> stores key cs \<longrightarrow> lookup key c0 = None"
    by simp_all
  have c1: "constructed c1"
    using c0(1) new_untouched [OF _ new] new_constructed [OF _ new] by blast
  have "lookup key c1 = None" if "\<not> stores key cs"
    using c0 that new_untouched [OF _ new, of key] new_constructed [OF _ new] by blast
  then have absent: "\<not> stores key cs \<longrightarrow> get_setting r key c1 = Inr None"
    by (simp add: get_constructed [OF c1])
  from set_constructed [OF c1, of r key val]
  obtain c2 where c2: "set_setting r key val c1 = Inr c2" "constructed c2"
    "lookup key c2 = Some val" by blast
  from set_constructed [OF c2(2), of r key val']
  obtain c3 where c3: "set_setting r key val' c2 = Inr c3" "constructed c3"
    "lookup key c3 = Some val'" by blast
  have "get_setting r key c2 = Inr (Some val)" "get_setting r key c3 = Inr (Some val')"
    using c2 c3 by (simp_all add: get_constructed)
  with c2(1) c3(1) absent show ?thesis by blast
qed

theorem set_setting_get_setting_witness:
  "(\<exists>c2. set_setting 0 ''language'' ''EN''
            (snd (Configuration_new (Configuration_class0 :: (str, str) Configuration_class)))
          = Inr c2 \<and> get_setting 0 ''language'' c2 = Inr (Some ''EN'')) \<and>
   get_setting 0 ''missing_key''
     (snd (Configuration_new (Configuration_class0 :: (str, str) Configuration_class)))
   = Inr None"
proof -
  let ?c0 = "Configuration_class0 :: (str, str) Configuration_class"
  have h0: "run [] ?c0 = Inr ?c0" by simp
  have h1: "Configuration_new ?c0 = (0, snd (Configuration_new ?c0))"
    by (simp add: Configuration_new_def Configuration_class0_def)
  have n: "\<not> stores ''missing_key'' ([] :: (str, str) call list)" by simp
  from set_setting_get_setting [OF h0 h1, of "''language''" "''EN''" "''EN''"]
    set_setting_get_setting [OF h0 h1, of "''missing_key''" "''EN''" "''EN''"] n
  show ?thesis by blast
qed

section \<open>Properties of the handlers and their factories\<close>

lemma TextHandler_process_example:
  "TextHandler_process ''Hello World!'' = ''hello world!''"
  by (simp add: TextHandler_process_def str_lower_def translate_def
      ascii_uppercase_def ascii_lowercase_def)

lemma PDFHandler_process_example:
  "PDFHandler_process ''Hello World!'' = ''PDF Content: Hello World!''"
  by (simp add: PDFHandler_process_def)

text \<open>
  C6. Each factory allocates one new handler object, of its own variant, at an address
  no earlier object has, and leaves the earlier objects as they were. The handler a
  \<open>TextHandlerFactory\<close> creates lower-cases its input, the one a \<open>PDFHandlerFactory\<close>
  creates prefixes it with \<open>PDF Content: \<close>; both are functions of the input string
  alone and are defined on the empty string.
\<close>

theorem create_handler_process:
  "create_handler TextHandlerFactory hs = (length hs, hs @ [TextHandler]) \<and>
   create_handler PDFHandlerFactory hs = (length hs, hs @ [PDFHandler]) \<and>
   DocumentHandler_process
     (snd (create_handler TextHandlerFactory hs) ! fst (create_handler TextHandlerFactory hs)) s
     = str_lower s \<and>
   DocumentHandler_process
     (snd (create_handler PDFHandlerFactory hs) ! fst (create_handler PDFHandlerFactory hs)) s
     = ''PDF Content: '' @ s \<and>
   DocumentHandler_process TextHandler [] = [] \<and>
   DocumentHandler_process PDFHandler [] = ''PDF Content: ''"
proof -
  have t: "create_handler TextHandlerFactory hs = (length hs, hs @ [TextHandler])"
    by (simp add: TextHandlerFactory_create_handler_def)
  have p: "create_handler PDFHandlerFactory hs = (length hs, hs @ [PDFHandler])"
    by (simp add: PDFHandlerFactory_create_handler_def)
  have "DocumentHandler_process TextHandler s = str_lower s"
    "DocumentHandler_process PDFHandler s = ''PDF Content: '' @ s"
    by (simp_all add: TextHandler_process_def PDFHandler_process_def)
  moreover have "DocumentHandler_process TextHandler [] = []"
    "DocumentHandler_process PDFHandler [] = ''PDF Content: ''"
    by (simp_all add: TextHandler_process_def PDFHandler_process_def str_lower_def)
  ultimately show ?thesis
    using t p by (simp add: nth_append)
qed

section \<open>Properties of the strategies and the processor\<close>

lemma strategies_example:
  "LowerCaseStrategy_process ''Hello World!'' = ''hello world!'' \<and>
   UpperCaseStrategy_process ''Hello World!'' = ''HELLO WORLD!''"
  by (simp add: LowerCaseStrategy_process_def UpperCaseStrategy_process_def
      str_lower_def str_upper_def translate_def ascii_uppercase_def ascii_lowercase_def)

text \<open>
  C7. \<open>LowerCaseStrategy.process\<close> is \<open>str.lower\<close> and \<open>UpperCaseStrategy.process\<close> is
  \<open>str.upper\<close>, called directly or through the strategy object; neither has an error
  result.
\<close>

theorem strategy_process:
  "LowerCaseStrategy_process s = str_lower s \<and>
   UpperCaseStrategy_process s = str_upper s \<and>
   ProcessingStrategy_process LowerCaseStrategy s = str_lower s \<and>
   ProcessingStrategy_process UpperCaseStrategy s = str_upper s"
  by (simp add: LowerCaseStrategy_process_def UpperCaseStrategy_process_def)

lemma session_append:
  "session (xs @ ys) tp =
     (fst (session xs tp) @ fst (session ys (snd (session xs tp))),
      snd (session ys (snd (session xs tp))))"
proof (induction xs tp rule: session.induct)
  case (1 self)
  show ?case by simp
next
  case (2 s cs self)
  then show ?case by simp
next
  case (3 c cs self)
  then show ?case by (simp add: case_prod_unfold Let_def)
qed

lemma session_executes:
  "session (map Execute xs) tp = (map (execute tp) xs, tp)"
  by (induction xs) simp_all

text \<open>
  C8. \<open>execute\<close> returns what the active strategy's \<open>process\<close> returns. After
  \<open>set_strategy s\<close> every following \<open>execute\<close> delegates to \<open>s\<close>, and the strings that
  earlier calls returned are the same as without the swap.
\<close>

theorem execute_delegates:
  "execute tp c = ProcessingStrategy_process (strategy tp) c \<and>
   execute (TextProcessor_init s0) c = ProcessingStrategy_process s0 c \<and>
   execute (set_strategy tp s) c = ProcessingStrategy_process s c \<and>
   fst (session (cs @ SetStrategy s # map Execute xs) tp)
     = fst (session cs tp) @ map (ProcessingStrategy_process s) xs"
proof -
  have "execute (set_strategy tp' s) = ProcessingStrategy_process s" for tp'
    by (rule ext) (simp add: execute_def set_strategy_def)
  then have "fst (session (cs @ SetStrategy s # map Execute xs) tp)
      = fst (session cs tp) @ map (ProcessingStrategy_process s) xs"
    by (simp add: session_append session_executes)
  then show ?thesis
    by (simp add: execute_def set_strategy_def TextProcessor_init_def)
qed

section \<open>Properties of the decorator chain\<close>

text \<open>
  C9. A \<open>ConcreteComponent\<close> returns its string and prints nothing. A
  \<open>SpellCheckDecorator\<close> wraps the result of the component it holds in \<open>SpellChecked(\<close>
  and \<open>)\<close>. A \<open>LoggingDecorator\<close> returns that result as it is and prints one line
  with it, after whatever the wrapped component printed. For \<open>abc\<close> wrapped by a
  \<open>LoggingDecorator\<close> and then by a \<open>SpellCheckDecorator\<close> the result is
  \<open>SpellChecked(abc)\<close> and the one line printed is \<open>Logging: abc\<close>.
\<close>

theorem operation_chain:
  "operation (ConcreteComponent c) out = (c, out) \<and>
   operation (SpellCheckDecorator w) out
     = (''SpellChecked('' @ fst (operation w out) @ '')'', snd (operation w out)) \<and>
   operation (LoggingDecorator w) out
     = (fst (operation w out),
        snd (operation w out) @ [''Logging: '' @ fst (operation w out)]) \<and>
   operation (SpellCheckDecorator (LoggingDecorator (ConcreteComponent ''abc''))) out
     = (''SpellChecked(abc)'', out @ [''Logging: abc''])"
  by (simp add: case_prod_unfold Let_def)

section \<open>Properties of the observable document\<close>

lemma list_remove_eq:
  "list_remove xs x = (if x \<in> set xs then Inr (remove1 x xs) else Inl ValueError)"
  by (induction xs) auto

lemma remove1_split: "x \<notin> set pre \<Longrightarrow> remove1 x (pre @ x # post) = pre @ post"
  by (induction pre) auto





















text \<open>
  C4. \<open>detach\<close> takes the first occurrence of the observer out of the sequence and
  leaves the rest in place; when the observer is not attached it raises \<open>ValueError\<close>.
\<close>

theorem detach_first_or_ValueError:
  "detach d ob
     = (if ob \<in> set (observers d) then Inr (d\<lparr>observers := remove1 ob (observers d)\<rparr>)
        else Inl ValueError) \<and>
   (ob \<notin> set pre \<longrightarrow>
      detach (d\<lparr>observers := pre @ ob # post\<rparr>) ob = Inr (d\<lparr>observers := pre @ post\<rparr>))"
  by (simp add: detach_def list_remove_eq remove1_split)

theorem detach_first_or_ValueError_witness:
  "detach \<lparr>observers = [1, 2, 1], content = []\<rparr> 1
     = Inr \<lparr>observers = [2, 1], content = []\<rparr> \<and>
   detach \<lparr>observers = [3, 2, 3], content = []\<rparr> 2
     = Inr \<lparr>observers = [3, 3], content = []\<rparr> \<and>
   detach Document_init 1 = Inl ValueError"
proof -
  have n: "(2::nat) \<notin> set [3]" by simp
  from detach_first_or_ValueError [of "\<lparr>observers = [1, 2, 1], content = []\<rparr>" 1 "[]" "[]"]
  have a: "detach \<lparr>observers = [1, 2, 1], content = []\<rparr> 1
      = Inr \<lparr>observers = [2, 1], content = []\<rparr>"
    by simp
  from detach_first_or_ValueError [of "\<lparr>observers = [], content = []\<rparr>" 2 "[3]" "[3]"] n
  have b: "detach \<lparr>observers = [3, 2, 3], content = []\<rparr> 2
      = Inr \<lparr>observers = [3, 3], content = []\<rparr>"
    by simp
  from detach_first_or_ValueError [of Document_init 1 "[]" "[]"]
  have c: "detach Document_init 1 = Inl ValueError"
    by (simp add: Document_init_def)
  from a b c show ?thesis by simp
qed






end
